theory Spec2Isabelle
  imports Complex_Main "HOL-Library.Sublist"
begin

section \<open>The cold email generator of \<open>main.py\<close>\<close>

text \<open>
  The program is a Streamlit page: it resolves a Groq API key, extracts the text of an
  uploaded PDF with PyPDF2 and sends one chat completion request. The three libraries
  and the operating system are outside the repository; what they answer is taken as a
  parameter (the record \<open>world\<close> and the type \<open>pdf_file\<close>), and every call the
  program makes to Streamlit or to the remote client is written, in order, to a trace of
  events. Each function returns its Python result together with the events it emitted.
  The statements at module level (\<open>load_dotenv\<close>, the notes in the sidebar) are not part
  of the functions below: the environment that \<open>os.getenv\<close> reads is the one after
  \<open>load_dotenv\<close>. The calls to Streamlit and the constructor \<open>Groq\<close> are taken not to
  raise.
\<close>

subsection \<open>Python values\<close>

text \<open>
  A value that is either \<open>None\<close> or a \<open>str\<close> is a \<open>string option\<close>. Python's
  truth test on such a value: \<open>None\<close> and the empty string are false.
\<close>

definition truthy :: "string option \<Rightarrow> bool" where
  "truthy v = (case v of None \<Rightarrow> False | Some s \<Rightarrow> s \<noteq> [])"

text \<open>What an f-string writes for \<open>{v}\<close>.\<close>

definition format_value :: "string option \<Rightarrow> string" where
  "format_value v = (case v of None \<Rightarrow> ''None'' | Some s \<Rightarrow> s)"

text \<open>
  An instance of Python's class \<open>Exception\<close>, the class the two handlers of the
  program catch; \<open>str\<close> is the text that \<open>{e}\<close> writes.
\<close>

datatype exn = Exception (str: string)

definition bind_exn :: "exn + 'a \<Rightarrow> ('a \<Rightarrow> exn + 'b) \<Rightarrow> exn + 'b" where
  "bind_exn r f = (case r of Inl e \<Rightarrow> Inl e | Inr x \<Rightarrow> f x)"

subsection \<open>The libraries\<close>

text \<open>
  PyPDF2: an uploaded file is known by what \<open>PyPDF2.PdfReader\<close> does on it (it raises,
  or gives a reader with its pages), a page by what \<open>extract_text\<close> does on it.
\<close>

datatype page = Page (extract_text: "exn + string")

datatype pdf_reader = Reader (pages: "page list")

datatype pdf_file = UploadedFile (PdfReader: "exn + pdf_reader")

text \<open>Groq: the client object, the keyword arguments of a request, and a response.\<close>

datatype groq = Groq (groq_api_key: "string option")

record request =
  messages :: "(string \<times> string) list list"
  model :: string
  max_tokens :: int
  temperature :: real

datatype chat_message = ChatMessage (content: "string option")

datatype choice = Choice (message: chat_message)

datatype chat_completion = ChatCompletion (choices: "choice list")

text \<open>
  Everything the program reads from outside: the process environment, the Streamlit
  secrets (a name that \<open>hasattr\<close> does not find is \<open>None\<close>), the values of the
  widgets (by label), and what the remote endpoint answers to a request.
\<close>

record world =
  os_getenv :: "string \<Rightarrow> string option"
  st_secrets :: "string \<Rightarrow> string option"
  st_text_input :: "string \<Rightarrow> string"
  st_sidebar_text_input :: "string \<Rightarrow> string"
  st_file_uploader :: "string \<Rightarrow> pdf_file option"
  st_text_area :: "string \<Rightarrow> string"
  st_button :: "string \<Rightarrow> bool"
  completions_create :: "groq \<Rightarrow> request \<Rightarrow> exn + chat_completion"

datatype event =
    St_title string
  | St_sidebar_header string
  | St_sidebar_text_input string
  | St_sidebar_info string
  | St_header string
  | St_file_uploader string
  | St_text_area string
  | St_button string
  | St_text_input string
  | St_warning string
  | St_error string
  | St_write "string option"
  | Completions_create groq request

text \<open>
  The calls of the client's method \<open>create\<close> (each with the request it was given), the
  error messages shown, and the values written to the page.
\<close>

fun network_calls :: "event list \<Rightarrow> request list" where
  "network_calls [] = []"
| "network_calls (Completions_create c r # evs) = r # network_calls evs"
| "network_calls (_ # evs) = network_calls evs"

fun errors_shown :: "event list \<Rightarrow> string list" where
  "errors_shown [] = []"
| "errors_shown (St_error m # evs) = m # errors_shown evs"
| "errors_shown (_ # evs) = errors_shown evs"

fun written :: "event list \<Rightarrow> string option list" where
  "written [] = []"
| "written (St_write v # evs) = v # written evs"
| "written (_ # evs) = written evs"

subsection \<open>\<open>ColdEmailGenerator.__init__\<close>\<close>

record ColdEmailGenerator =
  client :: "groq option"

definition GROQ_API_KEY :: string where
  "GROQ_API_KEY = ''GROQ_API_KEY''"

definition ColdEmailGenerator_init :: "world \<Rightarrow> string option \<Rightarrow> ColdEmailGenerator \<times> event list" where
  "ColdEmailGenerator_init w api_key =
     (if truthy api_key then (\<lparr>client = Some (Groq api_key)\<rparr>, [])
      else
        let env_key = os_getenv w GROQ_API_KEY;
            env_key = (if \<not> truthy env_key \<and> st_secrets w GROQ_API_KEY \<noteq> None
                       then st_secrets w GROQ_API_KEY else env_key);
            (env_key, evs) =
               (if \<not> truthy env_key
                then (Some (st_text_input w ''Enter your Groq API Key''),
                      [St_warning ''Groq API Key not found. Please enter your API key.'',
                       St_text_input ''Enter your Groq API Key''])
                else (env_key, []))
        in if truthy env_key then (\<lparr>client = Some (Groq env_key)\<rparr>, evs)
           else (\<lparr>client = None\<rparr>,
                 evs @ [St_error ''No API key provided. Cannot initialize Groq client.'']))"

subsection \<open>\<open>ColdEmailGenerator.extract_text_from_pdf\<close>\<close>

text \<open>The loop over the pages, \<open>text\<close> being the accumulator; a page that raises ends it.\<close>

fun extract_pages :: "string \<Rightarrow> page list \<Rightarrow> exn + string" where
  "extract_pages text [] = Inr text"
| "extract_pages text (p # ps) =
     bind_exn (extract_text p) (\<lambda>t. extract_pages (text @ t) ps)"

definition extract_text_from_pdf :: "pdf_file \<Rightarrow> string option \<times> event list" where
  "extract_text_from_pdf pdf_file =
     (case bind_exn (PdfReader pdf_file) (\<lambda>pdf_reader. extract_pages [] (pages pdf_reader)) of
        Inr text \<Rightarrow> (Some text, [])
      | Inl e \<Rightarrow> (None, [St_error (''Error reading PDF: '' @ str e)]))"

subsection \<open>\<open>ColdEmailGenerator.generate_cold_email\<close>\<close>

definition system_content :: string where
  "system_content =
     ''You are a professional email writer specializing in cold outreach for job applications. \<newline>'' @
     ''                        Create a personalized, concise, and compelling cold email that:\<newline>'' @
     ''                        1. Demonstrates knowledge of the company and role\<newline>'' @
     ''                        2. Highlights relevant skills from the resume\<newline>'' @
     ''                        3. Shows genuine interest in the position\<newline>'' @
     ''                        4. Maintains a professional yet warm tone\<newline>'' @
     ''                        5. Keeps the email to 3-4 paragraphs max''"

definition user_content :: "string \<Rightarrow> string option \<Rightarrow> string" where
  "user_content job_description resume_text =
     ''Job Description:\<newline>'' @ job_description @ ''\<newline>\<newline>My Resume:\<newline>'' @ format_value resume_text"

definition completion_request :: "string \<Rightarrow> string option \<Rightarrow> request" where
  "completion_request job_description resume_text =
     \<lparr>messages =
        [[(''role'', ''system''), (''content'', system_content)],
         [(''role'', ''user''), (''content'', user_content job_description resume_text)]],
      model = ''llama3-70b-8192'',
      max_tokens = 500,
      temperature = 0.7\<rparr>"

text \<open>\<open>chat_completion.choices[0].message.content\<close>; indexing an empty list raises.\<close>

definition first_choice_content :: "chat_completion \<Rightarrow> exn + string option" where
  "first_choice_content chat_completion =
     (case choices chat_completion of
        [] \<Rightarrow> Inl (Exception ''list index out of range'')
      | c # _ \<Rightarrow> Inr (content (message c)))"

definition generate_cold_email ::
    "world \<Rightarrow> ColdEmailGenerator \<Rightarrow> string \<Rightarrow> string option \<Rightarrow> string option \<times> event list" where
  "generate_cold_email w self job_description resume_text =
     (case client self of
        None \<Rightarrow> (None, [St_error ''Groq client not initialized. Cannot generate email.''])
      | Some c \<Rightarrow>
          let req = completion_request job_description resume_text in
          (case bind_exn (completions_create w c req) first_choice_content of
             Inr text \<Rightarrow> (text, [Completions_create c req])
           | Inl e \<Rightarrow> (None, [Completions_create c req,
                              St_error (''Error generating email: '' @ str e)])))"

subsection \<open>\<open>main\<close>\<close>

definition how_to_use :: string where
  "how_to_use =
     ''\<newline>'' @
     ''    1. Set up Groq API Key:\<newline>'' @
     ''       - Via .env file\<newline>'' @
     ''       - Via Streamlit secrets\<newline>'' @
     ''       - Manual input\<newline>'' @
     ''    2. Upload your PDF resume\<newline>'' @
     ''    3. Paste the job description\<newline>'' @
     ''    4. Generate a personalized cold email\<newline>'' @
     ''    ''"

text \<open>The page title starts with the four bytes of a rocket emoji.\<close>

definition page_title :: string where
  "page_title =
     [CHR 0xF0, CHR 0x9F, CHR 0x9A, CHR 0x80] @ '' Cold Email Generator for Job Applications''"

text \<open>Lines 92 to 110: the title and the sidebar.\<close>

definition sidebar_events :: "event list" where
  "sidebar_events =
     [St_title page_title,
      St_sidebar_header ''Configuration'',
      St_sidebar_text_input ''Groq API Key (optional)'',
      St_sidebar_header ''How to Use'',
      St_sidebar_info how_to_use]"

text \<open>Lines 116 to 124: the two input widgets and the button.\<close>

definition form_events :: "event list" where
  "form_events =
     [St_header ''Upload Your Resume'',
      St_file_uploader ''Choose a PDF file'',
      St_header ''Job Description'',
      St_text_area ''Paste the full job description here'',
      St_button ''Generate Cold Email'']"

text \<open>Lines 137 to 146: what \<open>main\<close> does with the extracted text.\<close>

definition main_generate ::
    "world \<Rightarrow> ColdEmailGenerator \<Rightarrow> string \<Rightarrow> string option \<Rightarrow> event list" where
  "main_generate w email_generator job_description resume_text =
     (if truthy resume_text then
        let (generated_email, evs) =
              generate_cold_email w email_generator job_description resume_text
        in if truthy generated_email
           then evs @ [St_header ''Generated Cold Email'', St_write generated_email,
                       St_button ''Copy to Clipboard'']
           else evs
      else [])"

text \<open>Lines 125 to 146: the body of \<open>if st.button("Generate Cold Email")\<close>.\<close>

definition main_clicked ::
    "world \<Rightarrow> ColdEmailGenerator \<Rightarrow> pdf_file option \<Rightarrow> string \<Rightarrow> event list" where
  "main_clicked w email_generator uploaded_resume job_description =
     (case uploaded_resume of
        None \<Rightarrow> [St_warning ''Please upload your resume'']
      | Some pdf_file \<Rightarrow>
          if job_description = [] then [St_warning ''Please paste the job description'']
          else
            let (resume_text, evs) = extract_text_from_pdf pdf_file
            in evs @ main_generate w email_generator job_description resume_text)"

definition main :: "world \<Rightarrow> event list" where
  "main w =
     (let manual_api_key = st_sidebar_text_input w ''Groq API Key (optional)'';
          (email_generator, init_events) = ColdEmailGenerator_init w (Some manual_api_key);
          uploaded_resume = st_file_uploader w ''Choose a PDF file'';
          job_description = st_text_area w ''Paste the full job description here''
      in sidebar_events @ init_events @ form_events @
         (if st_button w ''Generate Cold Email''
          then main_clicked w email_generator uploaded_resume job_description
          else []))"

subsection \<open>Concrete inputs\<close>

text \<open>
  A session in which everything works: the key \<open>X\<close> typed in the sidebar, the key
  \<open>Y\<close> in the environment, a resume of two pages, a job description, the button
  pressed and a remote endpoint that answers with one choice.
\<close>

definition demo_resume :: pdf_file where
  "demo_resume = UploadedFile (Inr (Reader [Page (Inr ''Jane Doe, ''), Page (Inr ''engineer'')]))"

definition demo_world :: world where
  "demo_world =
     \<lparr>os_getenv = (\<lambda>n. if n = ''GROQ_API_KEY'' then Some ''Y'' else None),
      st_secrets = (\<lambda>n. None),
      st_text_input = (\<lambda>l. []),
      st_sidebar_text_input = (\<lambda>l. ''X''),
      st_file_uploader = (\<lambda>l. Some demo_resume),
      st_text_area = (\<lambda>l. ''Backend developer''),
      st_button = (\<lambda>l. True),
      completions_create =
        (\<lambda>c r. Inr (ChatCompletion [Choice (ChatMessage (Some ''Dear team''))]))\<rparr>"

text \<open>The same session with no key anywhere.\<close>

definition no_key_world :: world where
  "no_key_world = demo_world\<lparr>os_getenv := (\<lambda>n. None), st_sidebar_text_input := (\<lambda>l. [])\<rparr>"

text \<open>The same session with a remote endpoint that raises \<open>e\<close>.\<close>

definition failing_world :: "exn \<Rightarrow> world" where
  "failing_world e = demo_world\<lparr>completions_create := (\<lambda>c r. Inl e)\<rparr>"

text \<open>The same session with a remote endpoint that answers with an empty text.\<close>

definition empty_reply_world :: world where
  "empty_reply_world =
     demo_world\<lparr>completions_create :=
                  (\<lambda>c r. Inr (ChatCompletion [Choice (ChatMessage (Some []))]))\<rparr>"

text \<open>A file whose second page raises, and a readable file with no text in it.\<close>

definition broken_resume :: pdf_file where
  "broken_resume =
     UploadedFile (Inr (Reader [Page (Inr ''Jane Doe, ''), Page (Inl (Exception ''bad page'')),
                                Page (Inr ''engineer'')]))"

definition blank_resume :: pdf_file where
  "blank_resume = UploadedFile (Inr (Reader [Page (Inr []), Page (Inr [])]))"

section \<open>Properties\<close>

subsection \<open>Auxiliary facts\<close>

lemma truthy_simps [simp]:
  "truthy None = False" "truthy (Some s) = (s \<noteq> [])"
  by (simp_all add: truthy_def)

lemma bind_exn_simps [simp]:
  "bind_exn (Inl e) f = Inl e" "bind_exn (Inr x) f = f x"
  by (simp_all add: bind_exn_def)

lemma network_calls_append [simp]:
  "network_calls (xs @ ys) = network_calls xs @ network_calls ys"
  by (induction xs rule: network_calls.induct) simp_all

lemma written_append:
  "written (xs @ ys) = written xs @ written ys"
  by (induction xs rule: written.induct) simp_all

lemma written_init: "written (snd (ColdEmailGenerator_init w api_key)) = []"
  by (simp add: ColdEmailGenerator_init_def Let_def)

text \<open>The loop over pages that all succeed, from any accumulator.\<close>

lemma extract_pages_all_ok:
  "extract_pages acc (map (\<lambda>t. Page (Inr t)) texts) = Inr (acc @ concat texts)"
  by (induction texts arbitrary: acc) simp_all

text \<open>The loop stops at the first page that raises, whatever was accumulated.\<close>

lemma extract_pages_raises:
  "extract_pages acc (map (\<lambda>t. Page (Inr t)) texts @ Page (Inl e) # rest) = Inl e"
  by (induction texts arbitrary: acc) simp_all


text \<open>Only \<open>generate_cold_email\<close> talks to the network.\<close>

lemma network_calls_init: "network_calls (snd (ColdEmailGenerator_init w api_key)) = []"
  by (simp add: ColdEmailGenerator_init_def Let_def)


lemma network_calls_generate:
  "network_calls (snd (generate_cold_email w self job_description resume_text)) =
     (case client self of None \<Rightarrow> [] | Some c \<Rightarrow> [completion_request job_description resume_text])"
  by (simp add: generate_cold_email_def Let_def split: option.splits sum.splits)



lemma network_calls_main:
  "network_calls (main w) =
     (if st_button w ''Generate Cold Email''
      then network_calls (main_clicked w
             (fst (ColdEmailGenerator_init w (Some (st_sidebar_text_input w ''Groq API Key (optional)''))))
             (st_file_uploader w ''Choose a PDF file'')
             (st_text_area w ''Paste the full job description here''))
      else [])"
  by (simp add: main_def Let_def split_beta network_calls_init sidebar_events_def form_events_def)

subsection \<open>The key resolver\<close>

text \<open>
  Claim C1. The key resolver \<open>ColdEmailGenerator.__init__\<close> builds its client from the
  first non-empty source in the order: explicit argument, environment variable,
  platform secret, interactive entry; it has no client when all four are empty. A
  source of lower priority than the selected one has no effect: with a non-empty
  argument the result is the client for the argument and nothing is shown, whatever
  the environment, the secrets and the entry are; with an empty argument and a
  non-empty environment variable the result is the client for that variable; and so
  on down the order. The user is prompted only when the first three are all empty.
\<close>

theorem key_resolver_priority:
  "client (fst (ColdEmailGenerator_init w api_key)) =
     map_option Groq
       (find truthy [api_key, os_getenv w GROQ_API_KEY, st_secrets w GROQ_API_KEY,
                     Some (st_text_input w ''Enter your Groq API Key'')])
   \<and> (truthy api_key \<longrightarrow>
        ColdEmailGenerator_init w api_key = (\<lparr>client = Some (Groq api_key)\<rparr>, []))
   \<and> (\<not> truthy api_key \<and> truthy (os_getenv w GROQ_API_KEY) \<longrightarrow>
        ColdEmailGenerator_init w api_key =
          (\<lparr>client = Some (Groq (os_getenv w GROQ_API_KEY))\<rparr>, []))
   \<and> (\<not> truthy api_key \<and> \<not> truthy (os_getenv w GROQ_API_KEY)
        \<and> truthy (st_secrets w GROQ_API_KEY) \<longrightarrow>
        ColdEmailGenerator_init w api_key =
          (\<lparr>client = Some (Groq (st_secrets w GROQ_API_KEY))\<rparr>, []))
   \<and> (\<not> truthy api_key \<and> \<not> truthy (os_getenv w GROQ_API_KEY)
        \<and> \<not> truthy (st_secrets w GROQ_API_KEY)
        \<and> st_text_input w ''Enter your Groq API Key'' \<noteq> [] \<longrightarrow>
        ColdEmailGenerator_init w api_key =
          (\<lparr>client = Some (Groq (Some (st_text_input w ''Enter your Groq API Key'')))\<rparr>,
           [St_warning ''Groq API Key not found. Please enter your API key.'',
            St_text_input ''Enter your Groq API Key'']))"
proof -
  let ?init = "ColdEmailGenerator_init w api_key"
  let ?env = "os_getenv w GROQ_API_KEY"
  let ?secret = "st_secrets w GROQ_API_KEY"
  let ?entry = "st_text_input w ''Enter your Groq API Key''"
  have arg: "?init = (\<lparr>client = Some (Groq api_key)\<rparr>, [])" if "truthy api_key"
    using that by (simp add: ColdEmailGenerator_init_def)
  have env: "?init = (\<lparr>client = Some (Groq ?env)\<rparr>, [])"
    if "\<not> truthy api_key" "truthy ?env"
    using that by (simp add: ColdEmailGenerator_init_def Let_def)
  have secret: "?init = (\<lparr>client = Some (Groq ?secret)\<rparr>, [])"
    if "\<not> truthy api_key" "\<not> truthy ?env" "truthy ?secret"
    using that by (cases ?secret) (simp_all add: ColdEmailGenerator_init_def Let_def)
  have entry: "?init =
      (\<lparr>client = Some (Groq (Some ?entry))\<rparr>,
       [St_warning ''Groq API Key not found. Please enter your API key.'',
        St_text_input ''Enter your Groq API Key''])"
    if "\<not> truthy api_key" "\<not> truthy ?env" "\<not> truthy ?secret" "?entry \<noteq> []"
    using that by (cases ?secret) (simp_all add: ColdEmailGenerator_init_def Let_def)
  have no_key: "client (fst ?init) = None"
    if "\<not> truthy api_key" "\<not> truthy ?env" "\<not> truthy ?secret" "?entry = []"
    using that by (cases ?secret) (simp_all add: ColdEmailGenerator_init_def Let_def)
  have first: "client (fst ?init) =
      map_option Groq (find truthy [api_key, ?env, ?secret, Some ?entry])"
  proof (cases "truthy api_key")
    case True
    then show ?thesis by (simp add: arg)
  next
    case no_arg: False
    show ?thesis
    proof (cases "truthy ?env")
      case True
      with no_arg show ?thesis by (simp add: env)
    next
      case no_env: False
      show ?thesis
      proof (cases "truthy ?secret")
        case True
        with no_arg no_env show ?thesis by (simp add: secret)
      next
        case no_secret: False
        show ?thesis
        proof (cases "?entry = []")
          case True
          from no_key [OF no_arg no_env no_secret True] no_arg no_env no_secret True
          show ?thesis by simp
        next
          case False
          from entry [OF no_arg no_env no_secret False] no_arg no_env no_secret False
          show ?thesis by simp
        qed
      qed
    qed
  qed
  show ?thesis
    using first arg env secret entry by blast
qed

text \<open>The argument \<open>X\<close> wins over the environment variable \<open>Y\<close>.\<close>

theorem key_resolver_priority_witness:
  "truthy (Some ''X'') \<and> os_getenv demo_world GROQ_API_KEY = Some ''Y'' \<and>
   ColdEmailGenerator_init demo_world (Some ''X'') = (\<lparr>client = Some (Groq (Some ''X''))\<rparr>, [])"
  using key_resolver_priority [of demo_world "Some ''X''"]
  by (simp add: demo_world_def GROQ_API_KEY_def)

subsection \<open>No credential\<close>

text \<open>
  Claim C2. If the argument, the environment variable and the platform secret are all
  empty or absent and the user enters nothing, the resolver leaves the client at
  \<open>None\<close>; any later call of \<open>generate_cold_email\<close> on that object, with any job
  description, any resume text and any remote endpoint, returns \<open>None\<close> after showing
  one error message, and sends no request.
\<close>

theorem no_credential_no_call:
  assumes "\<not> truthy api_key"
      and "\<not> truthy (os_getenv w GROQ_API_KEY)"
      and "\<not> truthy (st_secrets w GROQ_API_KEY)"
      and "st_text_input w ''Enter your Groq API Key'' = []"
  shows "client (fst (ColdEmailGenerator_init w api_key)) = None \<and>
         generate_cold_email w' (fst (ColdEmailGenerator_init w api_key)) job_description resume_text =
           (None, [St_error ''Groq client not initialized. Cannot generate email.'']) \<and>
         network_calls
           (snd (generate_cold_email w' (fst (ColdEmailGenerator_init w api_key))
                   job_description resume_text)) = []"
proof -
  have c: "client (fst (ColdEmailGenerator_init w api_key)) = None"
    using assms by (auto simp: ColdEmailGenerator_init_def Let_def split: option.splits)
  then show ?thesis
    by (simp add: generate_cold_email_def)
qed

theorem no_credential_no_call_witness:
  "\<not> truthy None \<and> \<not> truthy (os_getenv no_key_world GROQ_API_KEY) \<and>
   \<not> truthy (st_secrets no_key_world GROQ_API_KEY) \<and>
   st_text_input no_key_world ''Enter your Groq API Key'' = [] \<and>
   client (fst (ColdEmailGenerator_init no_key_world None)) = None \<and>
   generate_cold_email demo_world (fst (ColdEmailGenerator_init no_key_world None))
     ''Backend developer'' (Some ''Jane Doe'') =
     (None, [St_error ''Groq client not initialized. Cannot generate email.''])"
  using no_credential_no_call [of None no_key_world demo_world "''Backend developer''" "Some ''Jane Doe''"]
  by (simp add: no_key_world_def demo_world_def)

subsection \<open>The checks in front of the network\<close>




subsection \<open>The request\<close>

text \<open>
  Claim C4. With an initialised client, \<open>generate_cold_email\<close> sends exactly one
  request. Its messages are two, in this order: the fixed system instruction, which
  states the five numbered requirements, and one user message made of the job
  description and then the resume text, both verbatim. The model identifier is fixed,
  the maximum of output tokens is 500 and the temperature is 0.7 (the decimal literal
  of the source, handed to the client as it is).
\<close>

theorem one_request_two_messages:
  assumes "client self = Some c"
  shows "network_calls (snd (generate_cold_email w self job_description (Some resume_text))) =
           [completion_request job_description (Some resume_text)] \<and>
         messages (completion_request job_description (Some resume_text)) =
           [[(''role'', ''system''), (''content'', system_content)],
            [(''role'', ''user''),
             (''content'', ''Job Description:\<newline>'' @ job_description @
                           ''\<newline>\<newline>My Resume:\<newline>'' @ resume_text)]] \<and>
         model (completion_request job_description (Some resume_text)) = ''llama3-70b-8192'' \<and>
         max_tokens (completion_request job_description (Some resume_text)) = 500 \<and>
         temperature (completion_request job_description (Some resume_text)) = 0.7 \<and>
         sublist ''1. Demonstrates knowledge of the company and role'' system_content \<and>
         sublist ''2. Highlights relevant skills from the resume'' system_content \<and>
         sublist ''3. Shows genuine interest in the position'' system_content \<and>
         sublist ''4. Maintains a professional yet warm tone'' system_content \<and>
         sublist ''5. Keeps the email to 3-4 paragraphs max'' system_content"
proof -
  have r1: "sublist ''1. Demonstrates knowledge of the company and role'' system_content"
    unfolding system_content_def by code_simp
  have r2: "sublist ''2. Highlights relevant skills from the resume'' system_content"
    unfolding system_content_def by code_simp
  have r3: "sublist ''3. Shows genuine interest in the position'' system_content"
    unfolding system_content_def by code_simp
  have r4: "sublist ''4. Maintains a professional yet warm tone'' system_content"
    unfolding system_content_def by code_simp
  have r5: "sublist ''5. Keeps the email to 3-4 paragraphs max'' system_content"
    unfolding system_content_def by code_simp
  have calls: "network_calls (snd (generate_cold_email w self job_description (Some resume_text))) =
                 [completion_request job_description (Some resume_text)]"
    using assms by (simp add: network_calls_generate)
  have req: "completion_request job_description (Some resume_text) =
        \<lparr>messages =
           [[(''role'', ''system''), (''content'', system_content)],
            [(''role'', ''user''),
             (''content'', ''Job Description:\<newline>'' @ job_description @
                           ''\<newline>\<newline>My Resume:\<newline>'' @ resume_text)]],
         model = ''llama3-70b-8192'', max_tokens = 500, temperature = 0.7\<rparr>"
    by (simp add: completion_request_def user_content_def format_value_def)
  show ?thesis
    unfolding req using calls r1 r2 r3 r4 r5 by (simp add: req)
qed

theorem one_request_two_messages_witness:
  "client \<lparr>client = Some (Groq (Some ''X''))\<rparr> = Some (Groq (Some ''X'')) \<and>
   network_calls (snd (generate_cold_email demo_world \<lparr>client = Some (Groq (Some ''X''))\<rparr>
                         ''Backend developer'' (Some ''Jane Doe''))) =
     [\<lparr>messages =
         [[(''role'', ''system''), (''content'', system_content)],
          [(''role'', ''user''),
           (''content'',
            ''Job Description:\<newline>Backend developer\<newline>\<newline>My Resume:\<newline>Jane Doe'')]],
       model = ''llama3-70b-8192'', max_tokens = 500, temperature = 0.7\<rparr>]"
  using one_request_two_messages [of "\<lparr>client = Some (Groq (Some ''X''))\<rparr>" "Groq (Some ''X'')"
          demo_world "''Backend developer''" "''Jane Doe''"]
  by (simp add: completion_request_def)

text \<open>
  Claim C5. With a client, a non-empty job description and a resume text that is not
  \<open>None\<close>, when the remote call returns a response with at least one choice,
  \<open>generate_cold_email\<close> returns the content of the message of the first choice,
  unchanged.
\<close>

theorem returns_first_choice_verbatim:
  assumes "client self = Some c"
      and "job_description \<noteq> []"
      and "completions_create w c (completion_request job_description (Some resume_text)) =
             Inr (ChatCompletion (first # rest))"
  shows "fst (generate_cold_email w self job_description (Some resume_text)) =
           content (message first)"
  using assms by (simp add: generate_cold_email_def Let_def first_choice_content_def)

theorem returns_first_choice_verbatim_witness:
  "client \<lparr>client = Some (Groq (Some ''X''))\<rparr> = Some (Groq (Some ''X'')) \<and>
   ''Backend developer'' \<noteq> [] \<and>
   completions_create demo_world (Groq (Some ''X''))
     (completion_request ''Backend developer'' (Some ''Jane Doe'')) =
     Inr (ChatCompletion (Choice (ChatMessage (Some ''Dear team'')) # [])) \<and>
   fst (generate_cold_email demo_world \<lparr>client = Some (Groq (Some ''X''))\<rparr>
          ''Backend developer'' (Some ''Jane Doe'')) = Some ''Dear team''"
proof -
  have h: "completions_create demo_world (Groq (Some ''X''))
     (completion_request ''Backend developer'' (Some ''Jane Doe'')) =
     Inr (ChatCompletion (Choice (ChatMessage (Some ''Dear team'')) # []))"
    by (simp add: demo_world_def)
  show ?thesis
    using h returns_first_choice_verbatim [OF _ _ h, of "\<lparr>client = Some (Groq (Some ''X''))\<rparr>"]
    by simp
qed

subsection \<open>Text extraction\<close>

text \<open>
  Claim C6. For a PDF that the reader opens and whose pages all give their text,
  \<open>extract_text_from_pdf\<close> returns the texts of the pages concatenated in page order,
  and shows nothing.
\<close>

theorem extract_concatenates_pages:
  assumes "PdfReader pdf_file = Inr pdf_reader"
      and "pages pdf_reader = map (\<lambda>t. Page (Inr t)) texts"
  shows "extract_text_from_pdf pdf_file = (Some (concat texts), [])"
  using assms by (simp add: extract_text_from_pdf_def extract_pages_all_ok)

theorem extract_concatenates_pages_witness:
  "PdfReader demo_resume = Inr (Reader [Page (Inr ''Jane Doe, ''), Page (Inr ''engineer'')]) \<and>
   pages (Reader [Page (Inr ''Jane Doe, ''), Page (Inr ''engineer'')]) =
     map (\<lambda>t. Page (Inr t)) [''Jane Doe, '', ''engineer''] \<and>
   extract_text_from_pdf demo_resume = (Some ''Jane Doe, engineer'', [])"
  using extract_concatenates_pages [of demo_resume
          "Reader [Page (Inr ''Jane Doe, ''), Page (Inr ''engineer'')]" "[''Jane Doe, '', ''engineer'']"]
  by (simp add: demo_resume_def)

text \<open>
  Claim C7. When the extraction raises, either because the reader cannot open the file
  or because some page raises after any number of pages that gave their text,
  \<open>extract_text_from_pdf\<close> shows one error message (a fixed prefix and the text of
  the exception) and returns \<open>None\<close>; the result is a value, so nothing escapes to
  the caller. \<open>main\<close> then does not go on to the generation: after the error message
  it shows nothing more and sends no request.
\<close>

theorem extraction_failure_is_caught:
  assumes "PdfReader pdf_file = Inl e \<or>
           (\<exists>pdf_reader texts rest.
               PdfReader pdf_file = Inr pdf_reader \<and>
               pages pdf_reader = map (\<lambda>t. Page (Inr t)) texts @ Page (Inl e) # rest)"
  shows "extract_text_from_pdf pdf_file = (None, [St_error (''Error reading PDF: '' @ str e)]) \<and>
         main_generate w email_generator job_description (fst (extract_text_from_pdf pdf_file)) = [] \<and>
         (job_description \<noteq> [] \<longrightarrow>
            main_clicked w email_generator (Some pdf_file) job_description =
              [St_error (''Error reading PDF: '' @ str e)]) \<and>
         network_calls (main_clicked w email_generator (Some pdf_file) job_description) = [] \<and>
         (st_file_uploader w ''Choose a PDF file'' = Some pdf_file \<longrightarrow>
            network_calls (main w) = [] \<and> written (main w) = [])"
proof -
  have x: "extract_text_from_pdf pdf_file = (None, [St_error (''Error reading PDF: '' @ str e)])"
    using assms by (auto simp: extract_text_from_pdf_def extract_pages_raises)
  have g: "main_generate w' g' jd None = []" for w' g' jd
    by (simp add: main_generate_def)
  have c: "main_clicked w' g' (Some pdf_file) jd =
             (if jd = [] then [St_warning ''Please paste the job description'']
              else [St_error (''Error reading PDF: '' @ str e)])" for w' g' jd
    by (simp add: main_clicked_def x g)
  have m: "written (main w) = []" if "st_file_uploader w ''Choose a PDF file'' = Some pdf_file"
    using that
    by (simp add: main_def Let_def split_beta c written_append written_init sidebar_events_def
          form_events_def)
  show ?thesis
    by (simp add: x g c m network_calls_main)
qed

theorem extraction_failure_is_caught_witness:
  "PdfReader broken_resume =
     Inr (Reader [Page (Inr ''Jane Doe, ''), Page (Inl (Exception ''bad page'')), Page (Inr ''engineer'')]) \<and>
   extract_text_from_pdf broken_resume = (None, [St_error ''Error reading PDF: bad page'']) \<and>
   main_clicked demo_world \<lparr>client = Some (Groq (Some ''X''))\<rparr> (Some broken_resume)
     ''Backend developer'' = [St_error ''Error reading PDF: bad page'']"
proof -
  have h: "PdfReader broken_resume = Inl (Exception ''bad page'') \<or>
           (\<exists>pdf_reader texts rest.
               PdfReader broken_resume = Inr pdf_reader \<and>
               pages pdf_reader =
                 map (\<lambda>t. Page (Inr t)) texts @ Page (Inl (Exception ''bad page'')) # rest)"
  proof (rule disjI2, intro exI conjI)
    show "PdfReader broken_resume =
            Inr (Reader [Page (Inr ''Jane Doe, ''), Page (Inl (Exception ''bad page'')),
                         Page (Inr ''engineer'')])"
      by (simp add: broken_resume_def)
    show "pages (Reader [Page (Inr ''Jane Doe, ''), Page (Inl (Exception ''bad page'')),
                         Page (Inr ''engineer'')]) =
            map (\<lambda>t. Page (Inr t)) [''Jane Doe, ''] @
              Page (Inl (Exception ''bad page'')) # [Page (Inr ''engineer'')]"
      by simp
  qed
  show ?thesis
    using extraction_failure_is_caught [OF h, of demo_world "\<lparr>client = Some (Groq (Some ''X''))\<rparr>"
            "''Backend developer''"]
    by (simp add: broken_resume_def)
qed

subsection \<open>Failure of the remote call\<close>

text \<open>
  Claim C8, as amended. When the remote call raises, \<open>generate_cold_email\<close> catches
  the exception and returns \<open>None\<close> rather than propagating it. It performs no retry
  of its own: the method \<open>create\<close> of the client has been called exactly once. For
  every cause the return value is \<open>None\<close> and the message shown is the fixed prefix
  \<open>Error generating email: \<close> followed by the text of the exception.
\<close>

theorem remote_failure_is_caught:
  assumes "client self = Some c"
      and "completions_create w c (completion_request job_description resume_text) = Inl e"
  shows "generate_cold_email w self job_description resume_text =
           (None, [Completions_create c (completion_request job_description resume_text),
                   St_error (''Error generating email: '' @ str e)]) \<and>
         network_calls (snd (generate_cold_email w self job_description resume_text)) =
           [completion_request job_description resume_text]"
  using assms by (simp add: generate_cold_email_def Let_def)

theorem remote_failure_is_caught_witness:
  "client \<lparr>client = Some (Groq (Some ''X''))\<rparr> = Some (Groq (Some ''X'')) \<and>
   completions_create (failing_world (Exception ''Request timed out.'')) (Groq (Some ''X''))
     (completion_request ''Backend developer'' (Some ''Jane Doe'')) =
     Inl (Exception ''Request timed out.'') \<and>
   generate_cold_email (failing_world (Exception ''Request timed out.''))
     \<lparr>client = Some (Groq (Some ''X''))\<rparr> ''Backend developer'' (Some ''Jane Doe'') =
     (None, [Completions_create (Groq (Some ''X''))
               (completion_request ''Backend developer'' (Some ''Jane Doe'')),
             St_error ''Error generating email: Request timed out.''])"
  using remote_failure_is_caught [of "\<lparr>client = Some (Groq (Some ''X''))\<rparr>" "Groq (Some ''X'')"
          "failing_world (Exception ''Request timed out.'')" "''Backend developer''"
          "Some ''Jane Doe''" "Exception ''Request timed out.''"]
  by (simp add: failing_world_def)

text \<open>
  Claim C8 as first stated says that all causes surface identically. A rejected key and
  a timeout do not: the two runs show different messages.
\<close>

theorem error_causes_surface_identically_counterexample:
  "errors_shown (snd (generate_cold_email (failing_world (Exception ''Invalid API Key''))
                        \<lparr>client = Some (Groq (Some ''X''))\<rparr>
                        ''Backend developer'' (Some ''Jane Doe''))) =
     [''Error generating email: Invalid API Key''] \<and>
   errors_shown (snd (generate_cold_email (failing_world (Exception ''Request timed out.''))
                        \<lparr>client = Some (Groq (Some ''X''))\<rparr>
                        ''Backend developer'' (Some ''Jane Doe''))) =
     [''Error generating email: Request timed out.''] \<and>
   generate_cold_email (failing_world (Exception ''Invalid API Key''))
     \<lparr>client = Some (Groq (Some ''X''))\<rparr> ''Backend developer'' (Some ''Jane Doe'') \<noteq>
   generate_cold_email (failing_world (Exception ''Request timed out.''))
     \<lparr>client = Some (Groq (Some ''X''))\<rparr> ''Backend developer'' (Some ''Jane Doe'')"
  by (simp add: generate_cold_email_def failing_world_def Let_def)

subsection \<open>Who validates the inputs\<close>

text \<open>
  Claim C9. \<open>generate_cold_email\<close> checks neither of its two arguments: with a client
  it sends the request for any job description and any resume text, also for an empty
  job description and for a resume text that is empty or \<open>None\<close> (which the f-string
  writes as \<open>None\<close>). The checks are in the caller: \<open>main\<close> stops on an empty job
  description, and calls the generator only with a resume text that is neither
  \<open>None\<close> nor empty.
\<close>

theorem generate_does_not_validate:
  "client self = Some c \<longrightarrow>
     network_calls (snd (generate_cold_email w self job_description resume_text)) =
       [completion_request job_description resume_text] \<and>
     network_calls (snd (generate_cold_email w self [] None)) = [completion_request [] None] \<and>
     network_calls (snd (generate_cold_email w self [] (Some []))) =
       [completion_request [] (Some [])] \<and>
     user_content [] None = ''Job Description:\<newline>\<newline>\<newline>My Resume:\<newline>None'' \<and>
     main_clicked w self uploaded_resume [] =
       (if uploaded_resume = None then [St_warning ''Please upload your resume'']
        else [St_warning ''Please paste the job description'']) \<and>
     main_generate w self job_description None = [] \<and>
     main_generate w self job_description (Some []) = []"
  by (simp add: network_calls_generate main_clicked_def main_generate_def user_content_def
        format_value_def split: option.splits)

theorem generate_does_not_validate_witness:
  "client \<lparr>client = Some (Groq (Some ''X''))\<rparr> = Some (Groq (Some ''X'')) \<and>
   network_calls (snd (generate_cold_email demo_world \<lparr>client = Some (Groq (Some ''X''))\<rparr> [] None)) =
     [completion_request [] None] \<and>
   main_clicked demo_world \<lparr>client = Some (Groq (Some ''X''))\<rparr> (Some demo_resume) [] =
     [St_warning ''Please paste the job description'']"
  using generate_does_not_validate [of "\<lparr>client = Some (Groq (Some ''X''))\<rparr>" "Groq (Some ''X'')"
          demo_world "[]" None "Some demo_resume"]
  by simp

subsection \<open>Truth tests in \<open>main\<close>\<close>

text \<open>
  Claim C10. \<open>main\<close> tells success from failure by the truth value of a string. An
  extraction that succeeds with the empty string is handled by \<open>main\<close> as one that
  failed with \<open>None\<close>: the generator is not called, and for a readable PDF whose pages
  have no text nothing at all is shown after the button, no error message either. A
  remote call that succeeds with an empty content leaves the request as the only event:
  no header and no email are displayed.
\<close>

theorem truthiness_decides_main:
  "main_generate w g job_description (Some []) = main_generate w g job_description None \<and>
   main_generate w g job_description (Some []) = [] \<and>
   (PdfReader pdf_file = Inr pdf_reader \<and> pages pdf_reader = map (\<lambda>t. Page (Inr t)) texts \<and>
    concat texts = [] \<and> job_description \<noteq> [] \<longrightarrow>
      extract_text_from_pdf pdf_file = (Some [], []) \<and>
      main_clicked w g (Some pdf_file) job_description = []) \<and>
   (client g = Some c \<and> truthy resume_text \<and>
    completions_create w c (completion_request job_description resume_text) =
      Inr (ChatCompletion (Choice (ChatMessage (Some [])) # rest)) \<longrightarrow>
      main_generate w g job_description resume_text =
        [Completions_create c (completion_request job_description resume_text)] \<and>
      written (main_generate w g job_description resume_text) = [])"
proof -
  have a: "main_generate w g job_description (Some []) = []"
          "main_generate w g job_description None = []"
    by (simp_all add: main_generate_def)
  have b: "extract_text_from_pdf pdf_file = (Some [], []) \<and>
           main_clicked w g (Some pdf_file) job_description = []"
    if "PdfReader pdf_file = Inr pdf_reader" "pages pdf_reader = map (\<lambda>t. Page (Inr t)) texts"
       "concat texts = []" "job_description \<noteq> []"
  proof -
    have "extract_text_from_pdf pdf_file = (Some [], [])"
      using that by (simp add: extract_text_from_pdf_def extract_pages_all_ok)
    then show ?thesis
      using that by (simp add: main_clicked_def a)
  qed
  have c: "main_generate w g job_description resume_text =
             [Completions_create c (completion_request job_description resume_text)]"
    if "client g = Some c" "truthy resume_text"
       "completions_create w c (completion_request job_description resume_text) =
          Inr (ChatCompletion (Choice (ChatMessage (Some [])) # rest))"
    using that
    by (simp add: main_generate_def generate_cold_email_def Let_def first_choice_content_def)
  show ?thesis
    using a b c by simp
qed

theorem truthiness_decides_main_witness:
  "PdfReader blank_resume = Inr (Reader [Page (Inr []), Page (Inr [])]) \<and>
   extract_text_from_pdf blank_resume = (Some [], []) \<and>
   main_clicked demo_world \<lparr>client = Some (Groq (Some ''X''))\<rparr> (Some blank_resume)
     ''Backend developer'' = [] \<and>
   main_generate empty_reply_world \<lparr>client = Some (Groq (Some ''X''))\<rparr> ''Backend developer''
     (Some ''Jane Doe'') =
     [Completions_create (Groq (Some ''X''))
        (completion_request ''Backend developer'' (Some ''Jane Doe''))]"
  using truthiness_decides_main [of demo_world "\<lparr>client = Some (Groq (Some ''X''))\<rparr>"
          "''Backend developer''" blank_resume "Reader [Page (Inr []), Page (Inr [])]" "[[], []]"
          "Groq (Some ''X'')" "Some ''Jane Doe''" "[]"]
        truthiness_decides_main [of empty_reply_world "\<lparr>client = Some (Groq (Some ''X''))\<rparr>"
          "''Backend developer''" blank_resume "Reader [Page (Inr []), Page (Inr [])]" "[[], []]"
          "Groq (Some ''X'')" "Some ''Jane Doe''" "[]"]
  by (simp add: blank_resume_def empty_reply_world_def demo_world_def)

end
